theory Spec2Isabelle
  imports Complex_Main "HOL-Library.AList"
begin

section \<open>Python values used by \<^verbatim>\<open>validate-config.py\<close>\<close>

text \<open>
  A Python \<^verbatim>\<open>str\<close> is a sequence of Unicode code points, so it is modelled as a list of
  natural numbers (the check mark that starts every info message is U+2713, which no
  8-bit character holds). \<open>lit\<close> turns an ASCII literal of the source into such a list.
\<close>

type_synonym pystr = "nat list"

definition lit :: "string \<Rightarrow> pystr" where
  "lit s = map of_char s"

definition check_mark :: pystr where
  "check_mark = [10003]"

text \<open>
  \<^verbatim>\<open>str.isspace\<close> for one code point: the white-space table of CPython
  (U+0009..U+000D, U+001C..U+0020, U+0085, U+00A0, U+1680, U+2000..U+200A, U+2028,
  U+2029, U+202F, U+205F, U+3000). \<^verbatim>\<open>str.strip()\<close> removes such code points from
  both ends.
\<close>

definition isspace :: "nat \<Rightarrow> bool" where
  "isspace c \<longleftrightarrow>
     (9 \<le> c \<and> c \<le> 13) \<or> (28 \<le> c \<and> c \<le> 32) \<or> c = 133 \<or> c = 160 \<or> c = 5760 \<or>
     (8192 \<le> c \<and> c \<le> 8202) \<or> c = 8232 \<or> c = 8233 \<or> c = 8239 \<or> c = 8287 \<or> c = 12288"

definition strip :: "pystr \<Rightarrow> pystr" where
  "strip s = rev (dropWhile isspace (rev (dropWhile isspace s)))"

text \<open>\<^verbatim>\<open>s.startswith(p)\<close> and \<^verbatim>\<open>p in s\<close> on strings.\<close>

fun startswith :: "pystr \<Rightarrow> pystr \<Rightarrow> bool" where
  "startswith s [] = True"
| "startswith [] (p # ps) = False"
| "startswith (c # s) (p # ps) = (c = p \<and> startswith s ps)"

fun str_in :: "pystr \<Rightarrow> pystr \<Rightarrow> bool" where
  "str_in p [] = (p = [])"
| "str_in p (c # s) = (startswith (c # s) p \<or> str_in p s)"

text \<open>
  \<^verbatim>\<open>s.split(sep, 1)\<close> for a separator of one code point: the text before the leftmost
  separator and the text after it, or the whole string alone when there is none.
\<close>

fun split_once :: "nat \<Rightarrow> pystr \<Rightarrow> pystr list" where
  "split_once sep [] = [[]]"
| "split_once sep (c # s) =
     (if c = sep then [[], s]
      else (case split_once sep s of [] \<Rightarrow> [] | a # rest \<Rightarrow> (c # a) # rest))"

text \<open>\<^verbatim>\<open>str(n)\<close> for a length: decimal digits.\<close>

function str_nat :: "nat \<Rightarrow> pystr" where
  "str_nat n = (if n < 10 then [48 + n] else str_nat (n div 10) @ [48 + n mod 10])"
  by pat_completeness auto
termination
  by (relation "measure (\<lambda>n. n)") auto

declare str_nat.simps [simp del]

text \<open>
  What \<^verbatim>\<open>json.load\<close> returns. A float is a rational, an infinity or NaN (the parser
  accepts the last two); an object is an association list read by \<open>map_of\<close>.
\<close>

datatype pyfloat = Finite rat | Infinity bool | NaN

datatype json =
    JNull
  | JBool bool
  | JInt int
  | JFloat pyfloat
  | JStr pystr
  | JList "json list"
  | JDict "(pystr \<times> json) list"

text \<open>The truth value Python gives a value in \<^verbatim>\<open>if project_id and ...\<close>.\<close>

fun truthy :: "json \<Rightarrow> bool" where
  "truthy JNull = False"
| "truthy (JBool b) = b"
| "truthy (JInt i) = (i \<noteq> 0)"
| "truthy (JFloat f) = (f \<noteq> Finite 0)"
| "truthy (JStr s) = (s \<noteq> [])"
| "truthy (JList xs) = (xs \<noteq> [])"
| "truthy (JDict kvs) = (kvs \<noteq> [])"

subsection \<open>Exceptions\<close>

text \<open>
  An exception is its class and the text \<^verbatim>\<open>str(e)\<close>. Every class listed derives from
  \<^verbatim>\<open>Exception\<close>, so \<^verbatim>\<open>except Exception\<close> catches each of them;
  \<^verbatim>\<open>except json.JSONDecodeError\<close> catches the first only.
\<close>

datatype exn_class =
    JSONDecodeError | UnicodeDecodeError | OSError | RecursionError
  | ValueError | TypeError | AttributeError | KeyError

datatype exn = Exn (cls: exn_class) (msg: pystr)

text \<open>
  The operations of the script that the interpreter can refuse. The wording of the
  exception raised then differs between Python versions, so the run's environment
  supplies it.
\<close>

datatype fault =
    NotAContainer json
  | NotSubscriptable json
  | MissingKey pystr
  | NoAttribute json pystr
  | UnpackCount nat

definition and_then :: "exn + 'a \<Rightarrow> ('a \<Rightarrow> exn + 'b) \<Rightarrow> exn + 'b" where
  "and_then r f = (case r of Inl e \<Rightarrow> Inl e | Inr x \<Rightarrow> f x)"

section \<open>The environment of one run\<close>

text \<open>
  Everything the script asks of the file system and of the interpreter:
  \<^item> \<open>exists\<close>: the answer of \<^verbatim>\<open>(project_root / p).exists()\<close> for a relative path;
  \<^item> \<open>read_lines\<close>: opening \<^verbatim>\<open>.env\<close> and iterating over its lines, either the lines
    (each with its line end) or the exception raised on the way;
  \<^item> \<open>json_load\<close>: opening \<^verbatim>\<open>app/google-services.json\<close> and \<^verbatim>\<open>json.load\<close> of it, the
    value or the exception;
  \<^item> \<open>str_of\<close>: \<^verbatim>\<open>str(v)\<close> of a JSON value that is not a string;
  \<^item> \<open>wording\<close>: the text of the exception for a refused operation.
\<close>

record world =
  exists :: "pystr \<Rightarrow> bool"
  read_lines :: "exn + pystr list"
  json_load :: "exn + json"
  str_of :: "json \<Rightarrow> pystr"
  wording :: "fault \<Rightarrow> pystr"

definition py_str :: "world \<Rightarrow> json \<Rightarrow> pystr" where
  "py_str w v = (case v of JStr s \<Rightarrow> s | _ \<Rightarrow> str_of w v)"

text \<open>\<^verbatim>\<open>k in v\<close>, \<^verbatim>\<open>v[k]\<close> and \<^verbatim>\<open>v.get(k, d)\<close> for a string \<open>k\<close> and a JSON value \<open>v\<close>.\<close>

fun py_in :: "world \<Rightarrow> pystr \<Rightarrow> json \<Rightarrow> exn + bool" where
  "py_in w k (JDict kvs) = Inr (map_of kvs k \<noteq> None)"
| "py_in w k (JList xs) = Inr (JStr k \<in> set xs)"
| "py_in w k (JStr s) = Inr (str_in k s)"
| "py_in w k v = Inl (Exn TypeError (wording w (NotAContainer v)))"

fun py_getitem :: "world \<Rightarrow> json \<Rightarrow> pystr \<Rightarrow> exn + json" where
  "py_getitem w (JDict kvs) k =
     (case map_of kvs k of
        None \<Rightarrow> Inl (Exn KeyError (wording w (MissingKey k)))
      | Some v \<Rightarrow> Inr v)"
| "py_getitem w v k = Inl (Exn TypeError (wording w (NotSubscriptable v)))"

fun py_get :: "world \<Rightarrow> json \<Rightarrow> pystr \<Rightarrow> json \<Rightarrow> exn + json" where
  "py_get w (JDict kvs) k d = Inr (case map_of kvs k of None \<Rightarrow> d | Some v \<Rightarrow> v)"
| "py_get w v k d = Inl (Exn AttributeError (wording w (NoAttribute v (lit ''get''))))"

text \<open>\<^verbatim>\<open>key, value = parts\<close>: exactly two parts, or ValueError.\<close>

fun unpack2 :: "world \<Rightarrow> pystr list \<Rightarrow> exn + pystr \<times> pystr" where
  "unpack2 w [a, b] = Inr (a, b)"
| "unpack2 w parts = Inl (Exn ValueError (wording w (UnpackCount (length parts))))"

section \<open>The validator\<close>

record validator =
  errors :: "pystr list"
  warnings :: "pystr list"
  info :: "pystr list"

definition init :: validator where
  "init = \<lparr>errors = [], warnings = [], info = []\<rparr>"

definition add_error :: "validator \<Rightarrow> pystr \<Rightarrow> validator" where
  "add_error s m = s\<lparr>errors := errors s @ [m]\<rparr>"

definition add_warning :: "validator \<Rightarrow> pystr \<Rightarrow> validator" where
  "add_warning s m = s\<lparr>warnings := warnings s @ [m]\<rparr>"

definition add_info :: "validator \<Rightarrow> pystr \<Rightarrow> validator" where
  "add_info s m = s\<lparr>info := info s @ [m]\<rparr>"

definition found :: "pystr \<Rightarrow> pystr" where
  "found file_path = check_mark @ lit '' '' @ file_path @ lit '' found''"

subsection \<open>\<^verbatim>\<open>validate_env_file\<close>\<close>

definition required_vars :: "pystr list" where
  "required_vars =
     [lit ''API_BASE_URL_PROD'', lit ''MAPBOX_ACCESS_TOKEN_PROD'', lit ''FIREBASE_PROJECT_ID_PROD'']"

definition placeholder_values :: "pystr list" where
  "placeholder_values = [lit '''', lit ''your_placeholder_value'', lit ''placeholder'']"

definition missing_msg :: "pystr \<Rightarrow> pystr" where
  "missing_msg var = lit ''Required variable '' @ var @ lit '' not found in .env''"

definition placeholder_msg :: "pystr \<Rightarrow> pystr" where
  "placeholder_msg var = lit ''Variable '' @ var @ lit '' has placeholder value''"

definition no_env_message :: pystr where
  "no_env_message = lit ''No .env file found. Copy .env.template to .env and fill in your values.''"

definition neither_env_message :: pystr where
  "neither_env_message = lit ''Neither .env nor .env.template file found!''"

definition env_file_found :: pystr where
  "env_file_found = check_mark @ lit '' .env file found''"

text \<open>The loop over the lines of the file; \<open>env_vars\<close> is the dictionary built so far.\<close>

fun parse_lines :: "world \<Rightarrow> pystr list \<Rightarrow> (pystr \<times> pystr) list \<Rightarrow> exn + (pystr \<times> pystr) list" where
  "parse_lines w [] env_vars = Inr env_vars"
| "parse_lines w (raw # rest) env_vars =
     (let line = strip raw in
      if line \<noteq> [] \<and> \<not> startswith line (lit ''#'') \<and> str_in (lit ''='') line
      then and_then (unpack2 w (split_once 61 line))
             (\<lambda>(key, val). parse_lines w rest (AList.update (strip key) (strip val) env_vars))
      else parse_lines w rest env_vars)"

text \<open>\<^verbatim>\<open>env_vars[var]\<close>.\<close>

definition env_getitem :: "world \<Rightarrow> (pystr \<times> pystr) list \<Rightarrow> pystr \<Rightarrow> exn + pystr" where
  "env_getitem w env_vars var =
     (case map_of env_vars var of
        None \<Rightarrow> Inl (Exn KeyError (wording w (MissingKey var)))
      | Some v \<Rightarrow> Inr v)"

text \<open>The loop over the required variables.\<close>

fun check_required :: "world \<Rightarrow> pystr list \<Rightarrow> (pystr \<times> pystr) list \<Rightarrow> validator \<Rightarrow> exn + validator" where
  "check_required w [] env_vars s = Inr s"
| "check_required w (var # rest) env_vars s =
     (if map_of env_vars var = None
      then check_required w rest env_vars (add_warning s (missing_msg var))
      else and_then (env_getitem w env_vars var)
             (\<lambda>v. if v \<in> set placeholder_values
                  then check_required w rest env_vars (add_warning s (placeholder_msg var))
                  else check_required w rest env_vars s))"

definition validate_env_file :: "world \<Rightarrow> validator \<Rightarrow> exn + validator" where
  "validate_env_file w s =
     (if \<not> exists w (lit ''.env'') then
        (if exists w (lit ''.env.template'')
         then Inr (add_warning s no_env_message)
         else Inr (add_error s neither_env_message))
      else
        (let s1 = add_info s env_file_found in
         case and_then (read_lines w) (\<lambda>ls. parse_lines w ls []) of
           Inl e \<Rightarrow> Inr (add_error s1 (lit ''Error reading .env file: '' @ msg e))
         | Inr env_vars \<Rightarrow>
             and_then (check_required w required_vars env_vars s1)
               (\<lambda>s2. Inr (add_info s2
                  (check_mark @ lit '' Found '' @ str_nat (length env_vars)
                   @ lit '' environment variables'')))))"

subsection \<open>\<^verbatim>\<open>validate_firebase_config\<close>\<close>

definition default_project_id :: pystr where
  "default_project_id = lit ''aalay-student-housing''"

definition project_id_info :: "world \<Rightarrow> json \<Rightarrow> pystr" where
  "project_id_info w project_id = check_mark @ lit '' Firebase project ID: '' @ py_str w project_id"

definition placeholder_id_msg :: pystr where
  "placeholder_id_msg = lit ''Firebase project_id appears to be a placeholder''"

definition invalid_structure_msg :: pystr where
  "invalid_structure_msg = lit ''google-services.json has invalid structure''"

definition google_services_found :: pystr where
  "google_services_found = check_mark @ lit '' google-services.json found''"

definition invalid_json_msg :: pystr where
  "invalid_json_msg = lit ''google-services.json is not valid JSON''"

text \<open>
  The statements of the \<^verbatim>\<open>try\<close> block after \<^verbatim>\<open>json.load\<close>. The \<^verbatim>\<open>and\<close> of the two
  membership tests evaluates the second only when the first holds.
\<close>

definition check_structure :: "world \<Rightarrow> json \<Rightarrow> validator \<Rightarrow> exn + validator" where
  "check_structure w config s =
     and_then (py_in w (lit ''project_info'') config) (\<lambda>has_info.
     and_then (if has_info then py_in w (lit ''client'') config else Inr False) (\<lambda>both.
       if both then
         and_then (py_getitem w config (lit ''project_info'')) (\<lambda>project_info.
         and_then (py_get w project_info (lit ''project_id'') (JStr [])) (\<lambda>project_id.
           if truthy project_id \<and> project_id \<noteq> JStr default_project_id
           then Inr (add_info s (project_id_info w project_id))
           else Inr (add_warning s placeholder_id_msg)))
       else Inr (add_warning s invalid_structure_msg)))"

definition validate_firebase_config :: "world \<Rightarrow> validator \<Rightarrow> exn + validator" where
  "validate_firebase_config w s =
     (if \<not> exists w (lit ''app/google-services.json'') then
        (if exists w (lit ''app/google-services.json.template'')
         then Inr (add_warning s
                (lit ''No google-services.json found. Copy template and configure with your Firebase project.''))
         else Inr (add_warning s (lit ''No Firebase configuration found!'')))
      else
        (let s1 = add_info s google_services_found in
         case and_then (json_load w) (\<lambda>config. check_structure w config s1) of
           Inr s2 \<Rightarrow> Inr s2
         | Inl e \<Rightarrow>
             if cls e = JSONDecodeError then Inr (add_error s1 invalid_json_msg)
             else Inr (add_warning s1
                    (lit ''Could not validate google-services.json: '' @ msg e))))"

subsection \<open>The five presence checks\<close>

definition required_files :: "pystr list" where
  "required_files =
     [lit ''build.gradle'', lit ''app/build.gradle'', lit ''settings.gradle'',
      lit ''gradle.properties'', lit ''env-loader.gradle'']"

definition security_files :: "pystr list" where
  "security_files =
     [lit ''app/src/main/res/xml/network_security_config.xml'',
      lit ''app/src/main/res/xml/backup_rules.xml'',
      lit ''app/src/main/res/xml/data_extraction_rules.xml'',
      lit ''app/proguard-rules.pro'']"

definition critical_files :: "pystr list" where
  "critical_files =
     [lit ''utils/ConfigManager.kt'', lit ''utils/SecurityConfig.kt'',
      lit ''di/NetworkModule.kt'', lit ''AalayApplication.kt'']"

definition doc_files :: "pystr list" where
  "doc_files = [lit ''README.md'', lit ''DEPLOYMENT.md'', lit ''.gitignore'']"

definition ci_files :: "pystr list" where
  "ci_files = [lit ''.github/workflows/android-ci.yml'']"

definition validate_build_files :: "world \<Rightarrow> validator \<Rightarrow> exn + validator" where
  "validate_build_files w s =
     Inr (foldl (\<lambda>s file_path.
            if exists w file_path then add_info s (found file_path)
            else add_error s (lit ''Required build file missing: '' @ file_path))
          s required_files)"

definition validate_security_files :: "world \<Rightarrow> validator \<Rightarrow> exn + validator" where
  "validate_security_files w s =
     Inr (foldl (\<lambda>s file_path.
            if exists w file_path then add_info s (found file_path)
            else add_warning s (lit ''Security file missing: '' @ file_path))
          s security_files)"

definition validate_source_files :: "world \<Rightarrow> validator \<Rightarrow> exn + validator" where
  "validate_source_files w s =
     Inr (foldl (\<lambda>s file_path.
            if exists w file_path then add_info s (found file_path)
            else add_error s (lit ''Critical source file missing: '' @ file_path))
          s critical_files)"

definition validate_documentation :: "world \<Rightarrow> validator \<Rightarrow> exn + validator" where
  "validate_documentation w s =
     Inr (foldl (\<lambda>s file_path.
            if exists w file_path then add_info s (found file_path)
            else add_warning s (lit ''Documentation file missing: '' @ file_path))
          s doc_files)"

definition validate_ci_cd :: "world \<Rightarrow> validator \<Rightarrow> exn + validator" where
  "validate_ci_cd w s =
     Inr (foldl (\<lambda>s file_path.
            if exists w file_path then add_info s (found file_path)
            else add_warning s (lit ''CI/CD file missing: '' @ file_path))
          s ci_files)"

subsection \<open>\<^verbatim>\<open>validate_all\<close> and \<^verbatim>\<open>main\<close>\<close>

text \<open>The seven calls in the order of the source; an exception that leaves a check ends the run.\<close>

definition run_checks :: "world \<Rightarrow> validator \<Rightarrow> exn + validator" where
  "run_checks w s =
     and_then (validate_env_file w s) (\<lambda>s.
     and_then (validate_firebase_config w s) (\<lambda>s.
     and_then (validate_build_files w s) (\<lambda>s.
     and_then (validate_security_files w s) (\<lambda>s.
     and_then (validate_source_files w s) (\<lambda>s.
     and_then (validate_documentation w s) (\<lambda>s.
     validate_ci_cd w s))))))"

text \<open>
  What \<^verbatim>\<open>validate_all\<close> leaves behind: the three lists, the success rate it prints and
  the boolean it returns. The rate is the exact quotient; Python computes it in double
  precision, which gives the same number whenever the quotient is 0 or 1.
\<close>

record report =
  final :: validator
  success_rate :: rat
  success :: bool

definition summarise :: "validator \<Rightarrow> report" where
  "summarise s =
     (let total_checks = length (info s) + length (warnings s) + length (errors s) in
      \<lparr>final = s,
       success_rate =
         (if total_checks > 0 then of_nat (length (info s)) / of_nat total_checks * 100 else 0),
       success = (if errors s \<noteq> [] then False else if warnings s \<noteq> [] then True else True)\<rparr>)"

definition validate_all :: "world \<Rightarrow> validator \<Rightarrow> exn + report" where
  "validate_all w s = and_then (run_checks w s) (\<lambda>s. Inr (summarise s))"

text \<open>
  \<^verbatim>\<open>main\<close>: the exit status. An exception that nobody catches ends the interpreter with
  status 1.
\<close>

definition main :: "world \<Rightarrow> int" where
  "main w =
     (case validate_all w init of
        Inl e \<Rightarrow> 1
      | Inr r \<Rightarrow> if success r then 0 else 1)"

section \<open>Notions used to state the properties\<close>

text \<open>
  \<open>extend s d\<close> is the validator \<open>s\<close> with the messages of \<open>d\<close> appended, list by list:
  what a check that emits the messages \<open>d\<close> makes of \<open>s\<close>.
\<close>

definition extend :: "validator \<Rightarrow> validator \<Rightarrow> validator" where
  "extend s d = \<lparr>errors = errors s @ errors d, warnings = warnings s @ warnings d,
                 info = info s @ info d\<rparr>"

text \<open>
  The parse of the env file in the words of its description: a stripped line contributes
  when it is not empty, does not start with \<open>#\<close> (code point 35) and contains \<open>=\<close> (code
  point 61); its entry is the stripped text before the first \<open>=\<close> and the stripped text
  after it; the value of a key is that of the last entry with this key.
\<close>

definition contributes :: "pystr \<Rightarrow> bool" where
  "contributes l \<longleftrightarrow> l \<noteq> [] \<and> hd l \<noteq> 35 \<and> 61 \<in> set l"

definition entry :: "pystr \<Rightarrow> pystr \<times> pystr" where
  "entry l = (strip (takeWhile (\<lambda>c. c \<noteq> 61) l), strip (tl (dropWhile (\<lambda>c. c \<noteq> 61) l)))"

definition entries :: "pystr list \<Rightarrow> (pystr \<times> pystr) list" where
  "entries ls = map entry (filter contributes (map strip ls))"

definition last_value :: "(pystr \<times> pystr) list \<Rightarrow> pystr \<Rightarrow> pystr option" where
  "last_value es k =
     (let same = filter (\<lambda>e. fst e = k) es
      in if same = [] then None else Some (snd (last same)))"

definition store :: "(pystr \<times> pystr) list \<Rightarrow> pystr \<times> pystr \<Rightarrow> (pystr \<times> pystr) list" where
  "store env_vars e = AList.update (fst e) (snd e) env_vars"

text \<open>The warnings one required variable calls for, given the parsed dictionary.\<close>

definition var_warning :: "(pystr \<times> pystr) list \<Rightarrow> pystr \<Rightarrow> pystr list" where
  "var_warning env_vars var =
     (case map_of env_vars var of
        None \<Rightarrow> [missing_msg var]
      | Some v \<Rightarrow> if v \<in> set placeholder_values then [placeholder_msg var] else [])"

text \<open>A top-level key of a JSON document: only an object has keys.\<close>

definition has_key :: "json \<Rightarrow> pystr \<Rightarrow> bool" where
  "has_key v k = (case v of JDict kvs \<Rightarrow> map_of kvs k \<noteq> None | _ \<Rightarrow> False)"


subsection \<open>Concrete project directories\<close>

definition project :: "(pystr \<Rightarrow> bool) \<Rightarrow> exn + pystr list \<Rightarrow> exn + json \<Rightarrow> world" where
  "project present env_read credential_read =
     \<lparr>exists = present, read_lines = env_read, json_load = credential_read,
      str_of = (\<lambda>v. lit ''?''), wording = (\<lambda>f. lit ''?'')\<rparr>"

definition credentials :: "json \<Rightarrow> json" where
  "credentials project_info = JDict [(lit ''project_info'', project_info), (lit ''client'', JList [])]"

definition partial_env :: "pystr list" where
  "partial_env =
     [lit ''# production'' @ [10],
      lit ''API_BASE_URL_PROD = https://api.aalay.app/v1?region=in'' @ [10],
      lit ''MAPBOX_ACCESS_TOKEN_PROD=placeholder'' @ [10]]"


text \<open>
  An env file with a comment, a repeated key, a value that contains \<open>=\<close>, a line without
  \<open>=\<close> and an empty line.
\<close>

definition sample_env :: "pystr list" where
  "sample_env =
     [lit ''# settings'' @ [10],
      lit ''  KEY = first  '' @ [10],
      lit ''URL=http://x?a=b'' @ [10],
      lit ''no separator here'' @ [10],
      [10],
      lit ''KEY=last'']"






text \<open>
  Directories whose credential file holds \<^verbatim>\<open>NaN\<close>, bytes that are no UTF-8, and an object
  with the two keys whose \<open>project_info\<close> is \<^verbatim>\<open>null\<close>.
\<close>

definition nan_file_project :: world where
  "nan_file_project = project (\<lambda>p. True) (Inr []) (Inr (JFloat NaN))"

definition undecodable_file_project :: world where
  "undecodable_file_project =
     project (\<lambda>p. True) (Inr []) (Inl (Exn UnicodeDecodeError (lit ''invalid start byte'')))"

definition null_info_project :: world where
  "null_info_project = project (\<lambda>p. True) (Inr []) (Inr (credentials JNull))"

section \<open>Auxiliary facts\<close>

lemma extend_init [simp]: "extend s init = s" "extend init s = s"
  by (simp_all add: extend_def init_def)


lemma add_as_extend:
  "add_error s m = extend s (add_error init m)"
  "add_warning s m = extend s (add_warning init m)"
  "add_info s m = extend s (add_info init m)"
  by (simp_all add: extend_def init_def add_error_def add_warning_def add_info_def)

lemma str_in_single: "str_in [c] s \<longleftrightarrow> c \<in> set s"
  by (induction s) (auto)

lemma lit_single: "lit [c] = [of_char c]"
  by (simp add: lit_def)

lemma split_once_mem:
  "c \<in> set s \<Longrightarrow> split_once c s = [takeWhile (\<lambda>x. x \<noteq> c) s, tl (dropWhile (\<lambda>x. x \<noteq> c) s)]"
  by (induction s) auto

lemma split_once_not_mem: "c \<notin> set s \<Longrightarrow> split_once c s = [s]"
  by (induction s) auto

lemma startswith_single: "startswith s [c] \<longleftrightarrow> s \<noteq> [] \<and> hd s = c"
  by (cases s) auto

lemma line_test:
  "(l \<noteq> [] \<and> \<not> startswith l (lit ''#'') \<and> str_in (lit ''='') l) = contributes l"
  by (cases l) (auto simp: contributes_def lit_def str_in_single)

lemma parse_lines_fold:
  "parse_lines w ls acc = Inr (foldl store acc (entries ls))"
proof (induction ls arbitrary: acc)
  case Nil
  show ?case by (simp add: entries_def)
next
  case (Cons raw rest)
  show ?case
  proof (cases "contributes (strip raw)")
    case True
    then have "61 \<in> set (strip raw)" by (simp add: contributes_def)
    then have sp: "split_once 61 (strip raw) =
        [takeWhile (\<lambda>x. x \<noteq> 61) (strip raw), tl (dropWhile (\<lambda>x. x \<noteq> 61) (strip raw))]"
      by (rule split_once_mem)
    have "parse_lines w (raw # rest) acc =
        parse_lines w rest (store acc (entry (strip raw)))"
      using True by (simp add: line_test Let_def sp and_then_def entry_def store_def)
    also have "\<dots> = Inr (foldl store acc (entries (raw # rest)))"
      using True by (simp add: Cons.IH entries_def)
    finally show ?thesis .
  next
    case False
    then show ?thesis
      using Cons.IH [of acc] by (simp add: line_test Let_def entries_def)
  qed
qed

lemma last_value_snoc:
  "last_value (es @ [(k, v)]) k' = (if k' = k then Some v else last_value es k')"
  by (simp add: last_value_def)

lemma map_of_foldl_update:
  "map_of (foldl store acc es) k =
     (case last_value es k of None \<Rightarrow> map_of acc k | Some v \<Rightarrow> Some v)"
proof (induction es rule: rev_induct)
  case Nil
  show ?case by (simp add: last_value_def)
next
  case (snoc e es)
  obtain k' v' where e: "e = (k', v')" by (cases e)
  show ?case
    using snoc by (simp add: e last_value_snoc update_conv' store_def)
qed

lemma distinct_foldl_update:
  "distinct (map fst acc) \<Longrightarrow> distinct (map fst (foldl store acc es))"
  by (induction es arbitrary: acc) (auto simp: distinct_update store_def)

lemma check_required_warnings:
  "check_required w vars env_vars s =
     Inr (s\<lparr>warnings := warnings s @ concat (map (var_warning env_vars) vars)\<rparr>)"
proof (induction vars arbitrary: s)
  case Nil
  show ?case by simp
next
  case (Cons var rest)
  show ?case
  proof (cases "map_of env_vars var")
    case None
    then show ?thesis
      by (simp add: Cons.IH var_warning_def add_warning_def)
  next
    case (Some v)
    then show ?thesis
      by (simp add: Cons.IH var_warning_def add_warning_def env_getitem_def and_then_def)
  qed
qed









lemma validate_env_file_result:
  "validate_env_file w s =
     Inr (if \<not> exists w (lit ''.env'') then
            (if exists w (lit ''.env.template'')
             then add_warning s no_env_message
             else add_error s neither_env_message)
          else
            (case read_lines w of
               Inl e \<Rightarrow>
                 add_error (add_info s env_file_found)
                   (lit ''Error reading .env file: '' @ msg e)
             | Inr ls \<Rightarrow>
                 add_info
                   ((add_info s env_file_found)
                      \<lparr>warnings := warnings s
                         @ concat (map (var_warning (foldl store [] (entries ls))) required_vars)\<rparr>)
                   (check_mark @ lit '' Found '' @ str_nat (length (foldl store [] (entries ls)))
                    @ lit '' environment variables'')))"
  by (simp add: validate_env_file_def and_then_def parse_lines_fold check_required_warnings
        add_info_def Let_def split: sum.splits)





lemma check_structure_object:
  assumes "map_of config (lit ''project_info'') = Some (JDict project_info)"
    and "map_of config (lit ''client'') = Some client"
  shows "check_structure w (JDict config) s =
     Inr (let project_id =
                (case map_of project_info (lit ''project_id'') of None \<Rightarrow> JStr [] | Some v \<Rightarrow> v)
          in if truthy project_id \<and> project_id \<noteq> JStr default_project_id
             then add_info s (project_id_info w project_id)
             else add_warning s placeholder_id_msg)"
  using assms by (simp add: check_structure_def and_then_def Let_def)

lemma check_structure_incomplete:
  assumes "\<not> has_key config (lit ''project_info'') \<or> \<not> has_key config (lit ''client'')"
  shows "check_structure w config s = Inr (add_warning s invalid_structure_msg)
       \<or> ((\<forall>kvs. config \<noteq> JDict kvs) \<and> (\<exists>t. check_structure w config s = Inl (Exn TypeError t)))"
proof (cases config)
  case (JDict kvs)
  with assms show ?thesis
    by (auto simp: check_structure_def and_then_def has_key_def)
next
  case (JList xs)
  then show ?thesis
    by (simp add: check_structure_def and_then_def)
next
  case (JStr t)
  then show ?thesis
    by (simp add: check_structure_def and_then_def)
qed (simp_all add: check_structure_def and_then_def)

lemma not_per_variable:
  "no_env_message \<noteq> missing_msg var" "no_env_message \<noteq> placeholder_msg var"
  "neither_env_message \<noteq> missing_msg var" "neither_env_message \<noteq> placeholder_msg var"
  by (simp_all add: no_env_message_def neither_env_message_def missing_msg_def placeholder_msg_def lit_def)

lemma required_vars_distinct: "distinct required_vars"
  by (simp add: required_vars_def lit_def)

lemma mentions_concrete:
  "str_in (lit ''API_BASE_URL_PROD'') (missing_msg (lit ''API_BASE_URL_PROD''))"
  "\<not> str_in (lit ''API_BASE_URL_PROD'') (missing_msg (lit ''MAPBOX_ACCESS_TOKEN_PROD''))"
  "\<not> str_in (lit ''API_BASE_URL_PROD'') (missing_msg (lit ''FIREBASE_PROJECT_ID_PROD''))"
  "\<not> str_in (lit ''MAPBOX_ACCESS_TOKEN_PROD'') (missing_msg (lit ''API_BASE_URL_PROD''))"
  "str_in (lit ''MAPBOX_ACCESS_TOKEN_PROD'') (missing_msg (lit ''MAPBOX_ACCESS_TOKEN_PROD''))"
  "\<not> str_in (lit ''MAPBOX_ACCESS_TOKEN_PROD'') (missing_msg (lit ''FIREBASE_PROJECT_ID_PROD''))"
  "\<not> str_in (lit ''FIREBASE_PROJECT_ID_PROD'') (missing_msg (lit ''API_BASE_URL_PROD''))"
  "\<not> str_in (lit ''FIREBASE_PROJECT_ID_PROD'') (missing_msg (lit ''MAPBOX_ACCESS_TOKEN_PROD''))"
  "str_in (lit ''FIREBASE_PROJECT_ID_PROD'') (missing_msg (lit ''FIREBASE_PROJECT_ID_PROD''))"
  "str_in (lit ''API_BASE_URL_PROD'') (placeholder_msg (lit ''API_BASE_URL_PROD''))"
  "\<not> str_in (lit ''API_BASE_URL_PROD'') (placeholder_msg (lit ''MAPBOX_ACCESS_TOKEN_PROD''))"
  "\<not> str_in (lit ''API_BASE_URL_PROD'') (placeholder_msg (lit ''FIREBASE_PROJECT_ID_PROD''))"
  "\<not> str_in (lit ''MAPBOX_ACCESS_TOKEN_PROD'') (placeholder_msg (lit ''API_BASE_URL_PROD''))"
  "str_in (lit ''MAPBOX_ACCESS_TOKEN_PROD'') (placeholder_msg (lit ''MAPBOX_ACCESS_TOKEN_PROD''))"
  "\<not> str_in (lit ''MAPBOX_ACCESS_TOKEN_PROD'') (placeholder_msg (lit ''FIREBASE_PROJECT_ID_PROD''))"
  "\<not> str_in (lit ''FIREBASE_PROJECT_ID_PROD'') (placeholder_msg (lit ''API_BASE_URL_PROD''))"
  "\<not> str_in (lit ''FIREBASE_PROJECT_ID_PROD'') (placeholder_msg (lit ''MAPBOX_ACCESS_TOKEN_PROD''))"
  "str_in (lit ''FIREBASE_PROJECT_ID_PROD'') (placeholder_msg (lit ''FIREBASE_PROJECT_ID_PROD''))"
  by (simp_all add: missing_msg_def placeholder_msg_def lit_def)

lemma lit_eq_iff: "lit a = lit b \<longleftrightarrow> a = b"
  by (simp add: lit_def inj_map_eq_map [OF inj_of_char])

lemma mentions_required:
  assumes "var \<in> set required_vars" and "var' \<in> set required_vars"
  shows "str_in var (missing_msg var') = (var = var')"
    and "str_in var (placeholder_msg var') = (var = var')"
proof -
  from assms have
    "var = lit ''API_BASE_URL_PROD'' \<or> var = lit ''MAPBOX_ACCESS_TOKEN_PROD''
       \<or> var = lit ''FIREBASE_PROJECT_ID_PROD''"
    "var' = lit ''API_BASE_URL_PROD'' \<or> var' = lit ''MAPBOX_ACCESS_TOKEN_PROD''
       \<or> var' = lit ''FIREBASE_PROJECT_ID_PROD''"
    by (simp_all add: required_vars_def)
  then show "str_in var (missing_msg var') = (var = var')"
    and "str_in var (placeholder_msg var') = (var = var')"
    by (elim disjE; simp add: mentions_concrete lit_eq_iff)+
qed

lemma filter_var_warning:
  assumes "var \<in> set required_vars" and "var' \<in> set required_vars"
  shows "filter (str_in var) (var_warning env_vars var') =
           (if var = var' then var_warning env_vars var' else [])"
  by (simp add: var_warning_def mentions_required [OF assms]
        mentions_required [OF assms(2) assms(2)] split: option.splits)

lemma filter_required_warnings:
  assumes "var \<in> set required_vars"
  shows "filter (str_in var) (concat (map (var_warning env_vars) required_vars)) =
           var_warning env_vars var"
proof -
  have "filter (str_in var) (concat (map (var_warning env_vars) vars)) =
          (if var \<in> set vars then var_warning env_vars var else [])"
    if "set vars \<subseteq> set required_vars" and "distinct vars" for vars
    using that
  proof (induction vars)
    case Nil
    show ?case by simp
  next
    case (Cons v vars)
    then have "v \<in> set required_vars" by simp
    from filter_var_warning [OF assms this] Cons show ?case by auto
  qed
  from this [of required_vars] assms required_vars_distinct show ?thesis by simp
qed

lemma parse_partial_env:
  "parse_lines w partial_env [] =
     Inr [(lit ''API_BASE_URL_PROD'', lit ''https://api.aalay.app/v1?region=in''),
          (lit ''MAPBOX_ACCESS_TOKEN_PROD'', lit ''placeholder'')]"
  by (simp add: partial_env_def lit_def strip_def isspace_def and_then_def)

lemma firebase_load_error:
  assumes "exists w (lit ''app/google-services.json'')" and "json_load w = Inl e"
  shows "validate_firebase_config w s =
     Inr (if cls e = JSONDecodeError
          then add_error (add_info s google_services_found) invalid_json_msg
          else add_warning (add_info s google_services_found)
                 (lit ''Could not validate google-services.json: '' @ msg e))"
  using assms by (simp add: validate_firebase_config_def and_then_def Let_def)

lemma firebase_object:
  assumes "exists w (lit ''app/google-services.json'')"
    and "json_load w = Inr (JDict config)"
    and "map_of config (lit ''project_info'') = Some (JDict project_info)"
    and "map_of config (lit ''client'') = Some client"
    and "project_id = (case map_of project_info (lit ''project_id'') of None \<Rightarrow> JStr [] | Some v \<Rightarrow> v)"
  shows "validate_firebase_config w s =
     Inr (if truthy project_id \<and> project_id \<noteq> JStr default_project_id
          then add_info (add_info s google_services_found) (project_id_info w project_id)
          else add_warning (add_info s google_services_found) placeholder_id_msg)"
  using assms(1,2,5)
  by (simp add: validate_firebase_config_def and_then_def Let_def
        check_structure_object [OF assms(3,4)])

lemma split_at_first:
  assumes "c \<in> set l"
  shows "l = takeWhile (\<lambda>x. x \<noteq> c) l @ c # tl (dropWhile (\<lambda>x. x \<noteq> c) l)"
    and "c \<notin> set (takeWhile (\<lambda>x. x \<noteq> c) l)"
proof -
  from assms have ne: "dropWhile (\<lambda>x. x \<noteq> c) l \<noteq> []" by simp
  then have "hd (dropWhile (\<lambda>x. x \<noteq> c) l) = c"
    using hd_dropWhile [of "\<lambda>x. x \<noteq> c" l] by simp
  with ne have "dropWhile (\<lambda>x. x \<noteq> c) l = c # tl (dropWhile (\<lambda>x. x \<noteq> c) l)"
    by (cases "dropWhile (\<lambda>x. x \<noteq> c) l") simp_all
  then show "l = takeWhile (\<lambda>x. x \<noteq> c) l @ c # tl (dropWhile (\<lambda>x. x \<noteq> c) l)"
    using takeWhile_dropWhile_id [of "\<lambda>x. x \<noteq> c" l] by simp
  show "c \<notin> set (takeWhile (\<lambda>x. x \<noteq> c) l)"
    by (auto dest: set_takeWhileD)
qed


















section \<open>The environment file check\<close>

text \<open>
  C2. When \<^verbatim>\<open>.env\<close> is absent, the check appends exactly one message and nothing else: a
  warning when \<^verbatim>\<open>.env.template\<close> exists, an error when it does not. The file is never
  read (the result does not depend on what reading it would give), and the message is
  not one of the per-variable messages.
\<close>

theorem env_file_absent:
  assumes "\<not> exists w (lit ''.env'')"
  shows "validate_env_file w s =
           Inr (if exists w (lit ''.env.template'')
                then s\<lparr>warnings := warnings s @ [no_env_message]\<rparr>
                else s\<lparr>errors := errors s @ [neither_env_message]\<rparr>)
         \<and> validate_env_file (w\<lparr>read_lines := r\<rparr>) s = validate_env_file w s
         \<and> no_env_message \<noteq> missing_msg var \<and> no_env_message \<noteq> placeholder_msg var
         \<and> neither_env_message \<noteq> missing_msg var \<and> neither_env_message \<noteq> placeholder_msg var"
  using assms
  by (simp add: validate_env_file_def add_warning_def add_error_def not_per_variable)

theorem env_file_absent_witness:
  "validate_env_file (project (\<lambda>p. p = lit ''.env.template'') (Inr []) (Inr JNull)) init =
     Inr \<lparr>errors = [], warnings = [no_env_message], info = []\<rparr>
   \<and> validate_env_file (project (\<lambda>p. False) (Inr []) (Inr JNull)) init =
     Inr \<lparr>errors = [neither_env_message], warnings = [], info = []\<rparr>"
  using env_file_absent [of "project (\<lambda>p. p = lit ''.env.template'') (Inr []) (Inr JNull)" init]
    env_file_absent [of "project (\<lambda>p. False) (Inr []) (Inr JNull)" init]
  by (simp add: project_def init_def lit_eq_iff)

text \<open>
  C3. When \<^verbatim>\<open>.env\<close> exists and is read without an exception, the check adds no error, and
  among the warnings it adds, those that mention a required variable are: the one
  missing-variable warning when the parsed dictionary has no such key, the one
  placeholder warning when its value is \<open>''\<close>, \<open>'your_placeholder_value'\<close> or
  \<open>'placeholder'\<close>, and none for any other value.
\<close>

theorem required_variable_warnings:
  assumes "exists w (lit ''.env'')" and "read_lines w = Inr ls"
  shows "\<exists>env_vars added s'.
      parse_lines w ls [] = Inr env_vars \<and> validate_env_file w s = Inr s' \<and>
      errors s' = errors s \<and> warnings s' = warnings s @ added \<and>
      (\<forall>var \<in> set required_vars.
         filter (str_in var) added =
           (case map_of env_vars var of
              None \<Rightarrow> [missing_msg var]
            | Some v \<Rightarrow> if v \<in> set placeholder_values then [placeholder_msg var] else []))"
proof -
  let ?env = "foldl store [] (entries ls)"
  let ?added = "concat (map (var_warning ?env) required_vars)"
  have "parse_lines w ls [] = Inr ?env" by (rule parse_lines_fold)
  moreover have "\<exists>s'. validate_env_file w s = Inr s' \<and> errors s' = errors s
      \<and> warnings s' = warnings s @ ?added"
    using assms by (simp add: validate_env_file_result add_info_def)
  moreover have "\<forall>var \<in> set required_vars. filter (str_in var) ?added =
       (case map_of ?env var of
              None \<Rightarrow> [missing_msg var]
            | Some v \<Rightarrow> if v \<in> set placeholder_values then [placeholder_msg var] else [])"
    by (simp add: filter_required_warnings) (simp add: var_warning_def)
  ultimately show ?thesis by blast
qed

theorem required_variable_warnings_witness:
  "filter (str_in (lit ''API_BASE_URL_PROD''))
     (warnings (projr (validate_env_file (project (\<lambda>p. True) (Inr partial_env) (Inr JNull)) init))) = []
   \<and> filter (str_in (lit ''MAPBOX_ACCESS_TOKEN_PROD''))
     (warnings (projr (validate_env_file (project (\<lambda>p. True) (Inr partial_env) (Inr JNull)) init))) =
       [placeholder_msg (lit ''MAPBOX_ACCESS_TOKEN_PROD'')]
   \<and> filter (str_in (lit ''FIREBASE_PROJECT_ID_PROD''))
     (warnings (projr (validate_env_file (project (\<lambda>p. True) (Inr partial_env) (Inr JNull)) init))) =
       [missing_msg (lit ''FIREBASE_PROJECT_ID_PROD'')]"
proof -
  let ?w = "project (\<lambda>p. True) (Inr partial_env) (Inr JNull)"
  have "exists ?w (lit ''.env'')" and "read_lines ?w = Inr partial_env"
    by (simp_all add: project_def)
  from required_variable_warnings [OF this, of init]
  obtain env_vars added s' where
    p: "parse_lines ?w partial_env [] = Inr env_vars" and
    v: "validate_env_file ?w init = Inr s'" and
    a: "warnings s' = warnings init @ added" and
    f: "\<forall>var \<in> set required_vars.
         filter (str_in var) added =
           (case map_of env_vars var of
              None \<Rightarrow> [missing_msg var]
            | Some v \<Rightarrow> if v \<in> set placeholder_values then [placeholder_msg var] else [])"
    by blast
  from p have e: "env_vars =
     [(lit ''API_BASE_URL_PROD'', lit ''https://api.aalay.app/v1?region=in''),
      (lit ''MAPBOX_ACCESS_TOKEN_PROD'', lit ''placeholder'')]"
    by (simp add: parse_partial_env)
  from a v have w: "warnings (projr (validate_env_file ?w init)) = added"
    by (simp add: init_def)
  from f show ?thesis
    unfolding w e by (simp add: required_vars_def placeholder_values_def lit_eq_iff)
qed

text \<open>
  C9. The parse of the env file is the one described: the dictionary built from the lines
  \<open>ls\<close> has exactly the entries of the contributing lines, a line contributing when,
  stripped, it is not empty, does not start with \<open>#\<close> and contains \<open>=\<close>; each key maps to
  the value of the last entry with this key, and no exception is raised. The entry of a
  contributing line \<open>l\<close> splits it at its first \<open>=\<close>, so that the value keeps any further
  \<open>=\<close>, and strips the key and the value.
\<close>

theorem env_file_parsing:
  "\<exists>env_vars.
     parse_lines w ls [] = Inr env_vars \<and> distinct (map fst env_vars) \<and>
     (\<forall>k. map_of env_vars k = last_value (entries ls) k)
   \<and> (contributes l \<longrightarrow>
        (\<exists>k v. l = k @ 61 # v \<and> 61 \<notin> set k \<and> entry l = (strip k, strip v)))"
proof -
  have "parse_lines w ls [] = Inr (foldl store [] (entries ls))"
    by (rule parse_lines_fold)
  moreover have "distinct (map fst (foldl store [] (entries ls)))"
    by (rule distinct_foldl_update) simp
  moreover have "\<forall>k. map_of (foldl store [] (entries ls)) k = last_value (entries ls) k"
    by (simp add: map_of_foldl_update split: option.splits)
  moreover have "\<exists>k v. l = k @ 61 # v \<and> 61 \<notin> set k \<and> entry l = (strip k, strip v)"
    if "contributes l"
  proof -
    from that have "61 \<in> set l" by (simp add: contributes_def)
    from split_at_first [OF this] show ?thesis
      unfolding entry_def by blast
  qed
  ultimately show ?thesis by blast
qed

theorem env_file_parsing_witness:
  "contributes (lit ''URL=http://x?a=b'')
   \<and> entry (lit ''URL=http://x?a=b'') = (lit ''URL'', lit ''http://x?a=b'')
   \<and> map_of (projr (parse_lines (project (\<lambda>p. True) (Inr sample_env) (Inr JNull)) sample_env []))
        (lit ''KEY'') = Some (lit ''last'')
   \<and> map_of (projr (parse_lines (project (\<lambda>p. True) (Inr sample_env) (Inr JNull)) sample_env []))
        (lit ''URL'') = Some (lit ''http://x?a=b'')
   \<and> map_of (projr (parse_lines (project (\<lambda>p. True) (Inr sample_env) (Inr JNull)) sample_env []))
        (lit ''no separator here'') = None"
proof -
  have c: "contributes (lit ''URL=http://x?a=b'')"
    by (simp add: contributes_def lit_def)
  have e: "entries sample_env =
      [(lit ''KEY'', lit ''first''), (lit ''URL'', lit ''http://x?a=b''), (lit ''KEY'', lit ''last'')]"
    by (simp add: sample_env_def entries_def contributes_def entry_def strip_def isspace_def lit_def)
  from env_file_parsing
    [of "project (\<lambda>p. True) (Inr sample_env) (Inr JNull)" sample_env "lit ''URL=http://x?a=b''"]
  obtain env_vars where
    p: "parse_lines (project (\<lambda>p. True) (Inr sample_env) (Inr JNull)) sample_env [] = Inr env_vars"
    and m: "\<forall>k. map_of env_vars k = last_value (entries sample_env) k"
    by blast
  have "entry (lit ''URL=http://x?a=b'') = (lit ''URL'', lit ''http://x?a=b'')"
    by (simp add: entry_def strip_def isspace_def lit_def)
  with c m show ?thesis
    unfolding p e by (simp add: last_value_def lit_eq_iff)
qed

section \<open>The credential file check\<close>

text \<open>
  C4, as amended. When \<^verbatim>\<open>app/google-services.json\<close> exists and \<^verbatim>\<open>json.load\<close> raises
  \<^verbatim>\<open>JSONDecodeError\<close>, the check appends the info message that the file was found and
  exactly one error, and nothing about the structure or the project id.
\<close>

theorem invalid_json_one_error:
  assumes "exists w (lit ''app/google-services.json'')"
    and "json_load w = Inl e" and "cls e = JSONDecodeError"
  shows "validate_firebase_config w s =
     Inr (s\<lparr>errors := errors s @ [invalid_json_msg], info := info s @ [google_services_found]\<rparr>)"
  using assms(3) by (simp add: firebase_load_error [OF assms(1,2)] add_error_def add_info_def)

theorem invalid_json_one_error_witness:
  "validate_firebase_config
     (project (\<lambda>p. True) (Inr []) (Inl (Exn JSONDecodeError (lit ''Expecting value: line 1 column 1 (char 0)'')))) init =
   Inr \<lparr>errors = [invalid_json_msg], warnings = [], info = [google_services_found]\<rparr>"
  using invalid_json_one_error
    [of "project (\<lambda>p. True) (Inr []) (Inl (Exn JSONDecodeError (lit ''Expecting value: line 1 column 1 (char 0)'')))"
        "Exn JSONDecodeError (lit ''Expecting value: line 1 column 1 (char 0)'')" init]
  by (simp add: project_def init_def)

text \<open>
  C4 as stated fails, since not every file that is no valid JSON makes \<^verbatim>\<open>json.load\<close>
  raise \<^verbatim>\<open>JSONDecodeError\<close>. A file that holds \<^verbatim>\<open>NaN\<close> is loaded as a float, on which
  the membership test raises \<^verbatim>\<open>TypeError\<close>; a file of bytes that are no UTF-8 raises
  \<^verbatim>\<open>UnicodeDecodeError\<close>. Both end in the warning of the last handler and in no error.
\<close>

theorem invalid_json_no_error_counterexample:
  "json_load nan_file_project = Inr (JFloat NaN)
   \<and> validate_firebase_config nan_file_project init =
     Inr \<lparr>errors = [], warnings = [lit ''Could not validate google-services.json: '' @ lit ''?''],
          info = [google_services_found]\<rparr>
   \<and> json_load undecodable_file_project = Inl (Exn UnicodeDecodeError (lit ''invalid start byte''))
   \<and> validate_firebase_config undecodable_file_project init =
     Inr \<lparr>errors = [],
          warnings = [lit ''Could not validate google-services.json: '' @ lit ''invalid start byte''],
          info = [google_services_found]\<rparr>"
  by (simp add: validate_firebase_config_def nan_file_project_def undecodable_file_project_def
        project_def init_def check_structure_def and_then_def add_info_def add_warning_def)

text \<open>
  C5. When the file holds valid JSON whose top level lacks the key \<open>project_info\<close> or the
  key \<open>client\<close>, the check appends the info message that the file was found and exactly
  one warning, and no error. For a JSON object the warning is the one about the invalid
  structure; for a value that is no object it can also be the warning that the file
  could not be validated.
\<close>

theorem missing_keys_one_warning:
  assumes "exists w (lit ''app/google-services.json'')"
    and "json_load w = Inr config"
    and "\<not> has_key config (lit ''project_info'') \<or> \<not> has_key config (lit ''client'')"
  shows "\<exists>m. validate_firebase_config w s =
           Inr (s\<lparr>warnings := warnings s @ [m], info := info s @ [google_services_found]\<rparr>)
         \<and> (case config of JDict kvs \<Rightarrow> m = invalid_structure_msg | _ \<Rightarrow> True)"
proof -
  let ?s1 = "add_info s google_services_found"
  from check_structure_incomplete [OF assms(3), of w ?s1]
  consider "check_structure w config ?s1 = Inr (add_warning ?s1 invalid_structure_msg)"
    | t where "\<forall>kvs. config \<noteq> JDict kvs" and "check_structure w config ?s1 = Inl (Exn TypeError t)"
    by blast
  then show ?thesis
  proof cases
    case 1
    with assms(1,2) have "validate_firebase_config w s =
        Inr (s\<lparr>warnings := warnings s @ [invalid_structure_msg],
               info := info s @ [google_services_found]\<rparr>)"
      by (simp add: validate_firebase_config_def and_then_def Let_def add_warning_def add_info_def)
    then show ?thesis by (auto split: json.splits)
  next
    case 2
    with assms(1,2) have "validate_firebase_config w s =
        Inr (s\<lparr>warnings := warnings s @ [lit ''Could not validate google-services.json: '' @ t],
               info := info s @ [google_services_found]\<rparr>)"
      by (simp add: validate_firebase_config_def and_then_def Let_def add_warning_def add_info_def)
    with 2(1) show ?thesis by (auto split: json.splits)
  qed
qed

theorem missing_keys_one_warning_witness:
  "validate_firebase_config
     (project (\<lambda>p. True) (Inr []) (Inr (JDict [(lit ''client'', JList [])]))) init =
   Inr \<lparr>errors = [], warnings = [invalid_structure_msg], info = [google_services_found]\<rparr>"
  using missing_keys_one_warning
    [of "project (\<lambda>p. True) (Inr []) (Inr (JDict [(lit ''client'', JList [])]))"
        "JDict [(lit ''client'', JList [])]" init]
  by (simp add: project_def init_def has_key_def lit_eq_iff)

text \<open>
  C6, as amended. When the file holds a JSON object with both keys and \<open>project_info\<close> is
  itself an object, the check appends exactly one of the info message with the project
  id and the placeholder warning; it is the info message if and only if the project id
  (\<open>''\<close> when the key \<open>project_id\<close> is missing) is truthy and differs from
  \<open>'aalay-student-housing'\<close>. The info message of a string id ends with that id.
\<close>

theorem project_id_info_or_placeholder:
  assumes "exists w (lit ''app/google-services.json'')"
    and "json_load w = Inr (JDict config)"
    and "map_of config (lit ''project_info'') = Some (JDict project_info)"
    and "map_of config (lit ''client'') = Some client"
    and "project_id = (case map_of project_info (lit ''project_id'') of None \<Rightarrow> JStr [] | Some v \<Rightarrow> v)"
  shows "validate_firebase_config w s =
     Inr (if truthy project_id \<and> project_id \<noteq> JStr default_project_id
          then s\<lparr>info := info s @ [google_services_found, project_id_info w project_id]\<rparr>
          else s\<lparr>warnings := warnings s @ [placeholder_id_msg],
                 info := info s @ [google_services_found]\<rparr>)
     \<and> (project_id = JStr t \<longrightarrow>
          project_id_info w project_id = check_mark @ lit '' Firebase project ID: '' @ t)"
  by (simp add: firebase_object [OF assms] add_info_def add_warning_def project_id_info_def
        py_str_def)

theorem project_id_info_or_placeholder_witness:
  "validate_firebase_config
     (project (\<lambda>p. True) (Inr [])
        (Inr (credentials (JDict [(lit ''project_id'', JStr (lit ''aalay-prod''))])))) init =
   Inr \<lparr>errors = [], warnings = [],
        info = [google_services_found, check_mark @ lit '' Firebase project ID: aalay-prod'']\<rparr>"
  using project_id_info_or_placeholder
    [of "project (\<lambda>p. True) (Inr [])
           (Inr (credentials (JDict [(lit ''project_id'', JStr (lit ''aalay-prod''))])))"
        "[(lit ''project_info'', JDict [(lit ''project_id'', JStr (lit ''aalay-prod''))]),
          (lit ''client'', JList [])]"
        "[(lit ''project_id'', JStr (lit ''aalay-prod''))]" "JList []"
        "JStr (lit ''aalay-prod'')" init "lit ''aalay-prod''"]
  by (simp add: project_def credentials_def init_def lit_eq_iff default_project_id_def)
    (simp add: lit_def)

text \<open>
  C6 as stated fails: the project id \<open>''\<close> differs from the default value, and the check
  emits the placeholder warning, not the info message.
\<close>

theorem empty_project_id_counterexample:
  "JStr [] \<noteq> JStr default_project_id
   \<and> validate_firebase_config
       (project (\<lambda>p. True) (Inr [])
          (Inr (credentials (JDict [(lit ''project_id'', JStr [])])))) init =
     Inr \<lparr>errors = [], warnings = [placeholder_id_msg], info = [google_services_found]\<rparr>"
  by (simp add: validate_firebase_config_def project_def credentials_def init_def lit_eq_iff
        check_structure_def and_then_def add_info_def add_warning_def default_project_id_def)
    (simp add: lit_def)

text \<open>
  C10, as amended. With both keys present and \<open>project_info\<close> a JSON object, a project id
  that is the empty string, or a \<open>project_info\<close> without the key \<open>project_id\<close>, gives the
  placeholder warning, although the empty string is not the default value.
\<close>

theorem empty_project_id_is_placeholder:
  assumes "exists w (lit ''app/google-services.json'')"
    and "json_load w = Inr (JDict config)"
    and "map_of config (lit ''project_info'') = Some (JDict project_info)"
    and "map_of config (lit ''client'') = Some client"
    and "map_of project_info (lit ''project_id'') = None
         \<or> map_of project_info (lit ''project_id'') = Some (JStr [])"
  shows "validate_firebase_config w s =
           Inr (s\<lparr>warnings := warnings s @ [placeholder_id_msg],
                  info := info s @ [google_services_found]\<rparr>)
         \<and> [] \<noteq> default_project_id"
proof -
  from assms(5)
  have "JStr [] = (case map_of project_info (lit ''project_id'') of None \<Rightarrow> JStr [] | Some v \<Rightarrow> v)"
    by auto
  from firebase_object [OF assms(1-4) this] show ?thesis
    by (simp add: add_info_def add_warning_def default_project_id_def lit_def)
qed

theorem empty_project_id_is_placeholder_witness:
  "validate_firebase_config
     (project (\<lambda>p. True) (Inr []) (Inr (credentials (JDict [])))) init =
   Inr \<lparr>errors = [], warnings = [placeholder_id_msg], info = [google_services_found]\<rparr>"
  using empty_project_id_is_placeholder
    [of "project (\<lambda>p. True) (Inr []) (Inr (credentials (JDict [])))"
        "[(lit ''project_info'', JDict []), (lit ''client'', JList [])]" "[]" "JList []" init]
  by (simp add: project_def credentials_def init_def lit_eq_iff)

text \<open>
  C10 as stated fails: with both keys present and \<open>project_info\<close> the value \<^verbatim>\<open>null\<close>, which
  has no key \<open>project_id\<close> at all, \<^verbatim>\<open>.get\<close> raises \<^verbatim>\<open>AttributeError\<close> and the check emits
  the warning of the last handler, not the placeholder warning.
\<close>

theorem null_project_info_counterexample:
  "json_load null_info_project =
     Inr (JDict [(lit ''project_info'', JNull), (lit ''client'', JList [])])
   \<and> has_key (credentials JNull) (lit ''project_info'')
   \<and> has_key (credentials JNull) (lit ''client'')
   \<and> validate_firebase_config null_info_project init =
     Inr \<lparr>errors = [], warnings = [lit ''Could not validate google-services.json: '' @ lit ''?''],
          info = [google_services_found]\<rparr>
   \<and> lit ''Could not validate google-services.json: '' @ lit ''?'' \<noteq> placeholder_id_msg"
  by (simp add: validate_firebase_config_def null_info_project_def project_def credentials_def
        init_def lit_eq_iff has_key_def check_structure_def and_then_def add_info_def
        add_warning_def placeholder_id_msg_def)
    (simp add: lit_def)

section \<open>The whole run\<close>








end
